theory Spec2Isabelle
  imports Complex_Main
begin

section \<open>JSX trees\<close>

text \<open>
  A component of the repository is a function from its props and its instance state to a
  JSX tree. Host elements and the components of the external libraries (\<open>Canvas\<close>,
  \<open>Environment\<close>, \<open>OrbitControls\<close>, ...) stay element nodes with their tag; the
  repository's own components (\<open>Box\<close>, \<open>Scene\<close>, \<open>ClientOnly\<close>, ...) are the
  functions below, and using one in JSX is applying it.

  Prop values are kept as the source writes them. A numeric literal is the decimal it is
  written as; \<open>Math.PI\<close>, unary minus and division stay syntax, so that nothing is assumed
  about the arithmetic of JavaScript numbers. An arrow function passed as a handler is
  the state setter call of its body, together with the values it closes over.
\<close>

datatype action = SetActive bool | SetHover bool

datatype jsval =
    Num rat
  | MathPI
  | Neg jsval
  | Quot jsval jsval
  | Str string
  | Flag bool
  | Null
  | Arr "jsval list"
  | Obj "(string \<times> jsval) list"
  | Handler action
  | RefObj

type_synonym props = "(string \<times> jsval) list"

datatype jsx =
    Element string props "jsx list"
  | Text string
  | Fragment "jsx list"
  | NullNode

text \<open>A later attribute of a JSX element overrides an earlier one of the same name
  (this is what makes \<open>{...props}\<close> followed by explicit attributes work).\<close>

definition prop_of :: "string \<Rightarrow> props \<Rightarrow> jsval option" where
  "prop_of k ps = map_of (rev ps) k"

fun el_props :: "jsx \<Rightarrow> props" where
  "el_props (Element t ps cs) = ps"
| "el_props (Text s) = []"
| "el_props (Fragment cs) = []"
| "el_props NullNode = []"

fun el_children :: "jsx \<Rightarrow> jsx list" where
  "el_children (Element t ps cs) = cs"
| "el_children (Text s) = []"
| "el_children (Fragment cs) = cs"
| "el_children NullNode = []"

text \<open>All elements with a given tag, in document order.\<close>

fun elements :: "string \<Rightarrow> jsx \<Rightarrow> jsx list" where
  "elements t (Element tag ps cs) =
     (if tag = t then [Element tag ps cs] else []) @ concat (map (elements t) cs)"
| "elements t (Text s) = []"
| "elements t (Fragment cs) = concat (map (elements t) cs)"
| "elements t NullNode = []"


section \<open>components/Scene.tsx\<close>

subsection \<open>The mesh object and the state of a Box\<close>

text \<open>
  The \<open>THREE.Mesh\<close> behind \<open>meshRef\<close>: its Euler rotation, position and scale.
  JavaScript numbers are IEEE doubles; the model leaves the number type \<open>'n\<close> and its
  addition abstract, so every result holds for whatever \<open>+\<close> computes.
\<close>

record 'n euler =
  rot_x :: 'n
  rot_y :: 'n
  rot_z :: 'n

record 'n mesh =
  mesh_rotation :: "'n euler"
  mesh_position :: "'n \<times> 'n \<times> 'n"
  mesh_scale :: "'n \<times> 'n \<times> 'n"

text \<open>The two \<open>useState\<close> cells and the \<open>useRef\<close> cell of one Box instance;
  \<open>meshRef.current\<close> is \<open>null\<close> until the mesh is attached.\<close>

record 'n box_state =
  hovered :: bool
  active :: bool
  meshRef :: "'n mesh option"

definition box_init :: "'n box_state" where
  "box_init = \<lparr>hovered = False, active = False, meshRef = None\<rparr>"

subsection \<open>Box\<close>

definition Box :: "props \<Rightarrow> 'n box_state \<Rightarrow> jsx" where
  "Box props s =
     Element ''mesh''
       (props @
        [(''ref'', RefObj),
         (''scale'', if active s then Num 1.5 else Num 1),
         (''onClick'', Handler (SetActive (\<not> active s))),
         (''onPointerOver'', Handler (SetHover True)),
         (''onPointerOut'', Handler (SetHover False))])
       [Element ''boxGeometry'' [(''args'', Arr [Num 1, Num 1, Num 1])] [],
        Element ''meshStandardMaterial''
          [(''color'', Str (if hovered s then ''hotpink'' else ''orange''))] []]"

text \<open>The callback given to \<open>useFrame\<close>: \<open>if (meshRef.current) meshRef.current.rotation.x += delta\<close>.\<close>

definition useFrame_callback :: "'n::plus \<Rightarrow> 'n box_state \<Rightarrow> 'n box_state" where
  "useFrame_callback delta s =
     (case meshRef s of
        None \<Rightarrow> s
      | Some m \<Rightarrow>
          s\<lparr>meshRef :=
              Some (m\<lparr>mesh_rotation :=
                        (mesh_rotation m)\<lparr>rot_x := rot_x (mesh_rotation m) + delta\<rparr>\<rparr>)\<rparr>)"

subsection \<open>Events on a Box\<close>

fun run_action :: "action \<Rightarrow> 'n box_state \<Rightarrow> 'n box_state" where
  "run_action (SetActive b) s = s\<lparr>active := b\<rparr>"
| "run_action (SetHover b) s = s\<lparr>hovered := b\<rparr>"

text \<open>Firing an event calls the handler that the current render put on the mesh, if
  there is one: the handler is the closure of that render.\<close>

definition fire :: "string \<Rightarrow> props \<Rightarrow> 'n box_state \<Rightarrow> 'n box_state" where
  "fire name props s =
     (case prop_of name (el_props (Box props s)) of
        Some (Handler a) \<Rightarrow> run_action a s
      | _ \<Rightarrow> s)"

text \<open>
  A step is the call of the handler of a UI event, or of the frame callback, on the
  cells of the component. A handler only calls a state setter. The render that follows
  a state change is the renderer's work: it runs \<open>Box\<close> again and hands the new
  attributes to the mesh object, so what is shown after a step is read off that render
  (\<open>displayed_scale\<close>, \<open>displayed_color\<close> below). The fields of the mesh object in a
  state are those the component's own code has written; of these a step changes
  \<open>rotation.x\<close> only.
\<close>

datatype 'n event = Click | PointerOver | PointerOut | Frame 'n

fun step :: "props \<Rightarrow> 'n::plus event \<Rightarrow> 'n box_state \<Rightarrow> 'n box_state" where
  "step props Click s = fire ''onClick'' props s"
| "step props PointerOver s = fire ''onPointerOver'' props s"
| "step props PointerOut s = fire ''onPointerOut'' props s"
| "step props (Frame delta) s = useFrame_callback delta s"

definition run :: "props \<Rightarrow> 'n::plus event list \<Rightarrow> 'n box_state \<Rightarrow> 'n box_state" where
  "run props evs s = fold (step props) evs s"

text \<open>What a render of the Box displays: the \<open>scale\<close> attribute of the mesh and the
  \<open>color\<close> attribute of its material.\<close>

definition displayed_scale :: "props \<Rightarrow> 'n box_state \<Rightarrow> jsval option" where
  "displayed_scale props s = prop_of ''scale'' (el_props (Box props s))"

definition displayed_color :: "props \<Rightarrow> 'n box_state \<Rightarrow> jsval option" where
  "displayed_color props s =
     (case elements ''meshStandardMaterial'' (Box props s) of
        [] \<Rightarrow> None
      | m # ms \<Rightarrow> prop_of ''color'' (el_props m))"

text \<open>Which events of a run are clicks, and which are pointer events.\<close>

fun is_click :: "'n event \<Rightarrow> bool" where
  "is_click Click = True"
| "is_click PointerOver = False"
| "is_click PointerOut = False"
| "is_click (Frame delta) = False"

fun is_pointer :: "'n event \<Rightarrow> bool" where
  "is_pointer Click = False"
| "is_pointer PointerOver = True"
| "is_pointer PointerOut = True"
| "is_pointer (Frame delta) = False"

subsection \<open>Scene\<close>

definition Scene :: "'n box_state \<Rightarrow> 'n box_state \<Rightarrow> jsx" where
  "Scene b1 b2 =
     Element ''div'' [(''className'', Str ''w-full h-screen'')]
       [Element ''Canvas'' []
          [Element ''ambientLight'' [(''intensity'', Quot MathPI (Num 2))] [],
           Element ''spotLight''
             [(''position'', Arr [Num 10, Num 10, Num 10]),
              (''angle'', Num 0.15),
              (''penumbra'', Num 1),
              (''decay'', Num 0),
              (''intensity'', MathPI)] [],
           Element ''pointLight''
             [(''position'', Arr [Neg (Num 10), Neg (Num 10), Neg (Num 10)]),
              (''decay'', Num 0),
              (''intensity'', MathPI)] [],
           Box [(''position'', Arr [Neg (Num 1.2), Num 0, Num 0])] b1,
           Box [(''position'', Arr [Num 1.2, Num 0, Num 0])] b2]]"

section \<open>components/AdvancedScene.tsx\<close>

definition Sphere :: jsx where
  "Sphere =
     Element ''mesh'' [(''position'', Arr [Num 0, Num 1, Num 0])]
       [Element ''sphereGeometry'' [(''args'', Arr [Num 1, Num 32, Num 32])] [],
        Element ''meshStandardMaterial''
          [(''color'', Str ''#ff6b6b''), (''roughness'', Num 0.1)] []]"

definition Ground :: jsx where
  "Ground =
     Element ''mesh''
       [(''rotation'', Arr [Quot (Neg MathPI) (Num 2), Num 0, Num 0]),
        (''position'', Arr [Num 0, Neg (Num 1), Num 0])]
       [Element ''planeGeometry'' [(''args'', Arr [Num 100, Num 100])] [],
        Element ''meshStandardMaterial'' [(''color'', Str ''#f0f0f0'')] []]"

definition AdvancedScene :: jsx where
  "AdvancedScene =
     Element ''div'' [(''className'', Str ''w-full h-screen'')]
       [Element ''Canvas''
          [(''shadows'', Flag True),
           (''camera'', Obj [(''position'', Arr [Num 0, Num 0, Num 5]), (''fov'', Num 60)])]
          [Element ''Suspense'' [(''fallback'', Null)]
             [Element ''Environment'' [(''preset'', Str ''sunset'')] [],
              Sphere,
              Ground,
              Element ''ContactShadows''
                [(''position'', Arr [Num 0, Neg (Num 1), Num 0]),
                 (''opacity'', Num 0.4),
                 (''scale'', Num 10),
                 (''blur'', Num 1.5),
                 (''far'', Num 10)] [],
              Element ''OrbitControls''
                [(''enablePan'', Flag True),
                 (''enableZoom'', Flag True),
                 (''enableRotate'', Flag True)] []]]]"

section \<open>components/ClientOnly.tsx\<close>

text \<open>
  The component as the guide \<open>docs/nextjs-r3f-guide.md\<close> gives it. The optional
  \<open>fallback\<close> prop is an option; leaving it out gives the default \<open>null\<close>.
\<close>

definition ClientOnly :: "jsx \<Rightarrow> jsx option \<Rightarrow> bool \<Rightarrow> jsx" where
  "ClientOnly children fallback hasMounted =
     (let fb = (case fallback of None \<Rightarrow> NullNode | Some f \<Rightarrow> f)
      in if \<not> hasMounted then fb else Fragment [children])"

text \<open>
  The life of one instance. Its state is the \<open>useState(false)\<close> cell \<open>hasMounted\<close>.
  The only call of its setter is \<open>setHasMounted(true)\<close> in the mount effect; a render
  reads the cell and writes nothing.
\<close>

definition hasMounted_init :: bool where
  "hasMounted_init = False"

datatype lifecycle = MountEffect | Render

fun client_step :: "lifecycle \<Rightarrow> bool \<Rightarrow> bool" where
  "client_step MountEffect hasMounted = True"
| "client_step Render hasMounted = hasMounted"

definition client_run :: "lifecycle list \<Rightarrow> bool \<Rightarrow> bool" where
  "client_run evs hasMounted = fold client_step evs hasMounted"

section \<open>app/3d/page.tsx\<close>

text \<open>The state of the component instances below the page: the two \<open>ClientOnly\<close>
  wrappers and the two boxes of the basic scene.\<close>

record 'n page_state =
  scene_mounted :: bool
  advanced_mounted :: bool
  box_left :: "'n box_state"
  box_right :: "'n box_state"

definition loading :: jsx where
  "loading =
     Element ''div'' [(''className'', Str ''flex items-center justify-center h-full'')]
       [Text ''Loading 3D scene...'']"

definition ThreeDPage :: "'n page_state \<Rightarrow> jsx" where
  "ThreeDPage st =
     Element ''main'' [(''className'', Str ''min-h-screen bg-gray-50'')]
       [Element ''div'' [(''className'', Str ''container mx-auto px-4 py-8'')]
          [Element ''h1'' [(''className'', Str ''text-4xl font-bold text-center mb-8'')]
             [Text ''React Three Fiber Demo''],
           Element ''div'' [(''className'', Str ''grid grid-cols-1 lg:grid-cols-2 gap-8 h-[80vh]'')]
             [Element ''div'' [(''className'', Str ''bg-white rounded-lg shadow-lg overflow-hidden'')]
                [Element ''div'' [(''className'', Str ''p-4 bg-gradient-to-r from-blue-500 to-purple-600'')]
                   [Element ''h2'' [(''className'', Str ''text-xl font-bold text-white'')]
                      [Text ''Basic Scene''],
                    Element ''p'' [(''className'', Str ''text-blue-100 text-sm'')]
                      [Text ''Interactive spinning boxes - click to scale, hover to change color'']],
                 Element ''div'' [(''className'', Str ''h-full'')]
                   [ClientOnly (Scene (box_left st) (box_right st)) (Some loading)
                      (scene_mounted st)]],
              Element ''div'' [(''className'', Str ''bg-white rounded-lg shadow-lg overflow-hidden'')]
                [Element ''div'' [(''className'', Str ''p-4 bg-gradient-to-r from-green-500 to-teal-600'')]
                   [Element ''h2'' [(''className'', Str ''text-xl font-bold text-white'')]
                      [Text ''Advanced Scene''],
                    Element ''p'' [(''className'', Str ''text-green-100 text-sm'')]
                      [Text ''Sphere with environment lighting, shadows, and orbit controls'']],
                 Element ''div'' [(''className'', Str ''h-full'')]
                   [ClientOnly AdvancedScene (Some loading) (advanced_mounted st)]]],
           Element ''div'' [(''className'', Str ''mt-8 text-center'')]
             [Element ''p'' [(''className'', Str ''text-gray-600 mb-4'')]
                [Text ''Built with Next.js 15 + React Three Fiber v9 + TypeScript''],
              Element ''div'' [(''className'', Str ''flex justify-center space-x-4'')]
                [Element ''a''
                   [(''href'', Str ''/''),
                    (''className'', Str ''px-6 py-2 bg-blue-500 text-white rounded-lg hover:bg-blue-600 transition-colors'')]
                   [Text (CHR 0xE2 # CHR 0x86 # CHR 0x90 # '' Back to Home'')],
                 Element ''a''
                   [(''href'', Str ''https://r3f.docs.pmnd.rs/''),
                    (''target'', Str ''_blank''),
                    (''rel'', Str ''noopener noreferrer''),
                    (''className'', Str ''px-6 py-2 bg-green-500 text-white rounded-lg hover:bg-green-600 transition-colors'')]
                   [Text (''R3F Documentation '' @ [CHR 0xE2, CHR 0x86, CHR 0x92])]]]]]"

text \<open>The two panels of the page are the cards of its grid; the scene of a panel is
  what its \<open>ClientOnly\<close> wrapper shows.\<close>

definition panels :: "jsx \<Rightarrow> jsx list" where
  "panels page =
     filter (\<lambda>e. prop_of ''className'' (el_props e) =
                   Some (Str ''bg-white rounded-lg shadow-lg overflow-hidden''))
       (elements ''div'' page)"

section \<open>The routes of the app\<close>

text \<open>
  The framework serves the page module \<open>app/<segments>/page.tsx\<close> at the route
  \<open>/<segments>\<close>. The project structure in the README lists two page modules:
  \<open>app/3d/page.tsx\<close>, the page above, and \<open>app/page.tsx\<close>, the homepage. A page
  module is given here by its directory segments below \<open>app\<close>.
\<close>

definition page_modules :: "string list list" where
  "page_modules = [[''3d''], []]"

fun route_of :: "string list \<Rightarrow> string" where
  "route_of [] = ''/''"
| "route_of [d] = ''/'' @ d"
| "route_of (d # ds) = ''/'' @ d @ route_of ds"

definition routes :: "string list" where
  "routes = map route_of page_modules"

text \<open>The targets of the links of a page, and those of them that stay on the site.\<close>

definition hrefs :: "jsx \<Rightarrow> string list" where
  "hrefs page =
     concat (map (\<lambda>e. case prop_of ''href'' (el_props e) of
                          Some (Str h) \<Rightarrow> [h]
                        | _ \<Rightarrow> [])
               (elements ''a'' page))"

definition internal_links :: "jsx \<Rightarrow> string list" where
  "internal_links page = filter (\<lambda>h. take 1 h = ''/'') (hrefs page)"

section \<open>Properties of the Box\<close>

subsection \<open>What the handlers and a render do\<close>

lemma fire_onClick: "fire ''onClick'' props s = s\<lparr>active := \<not> active s\<rparr>"
  by (simp add: fire_def Box_def prop_of_def)

lemma fire_onPointerOver: "fire ''onPointerOver'' props s = s\<lparr>hovered := True\<rparr>"
  by (simp add: fire_def Box_def prop_of_def)

lemma fire_onPointerOut: "fire ''onPointerOut'' props s = s\<lparr>hovered := False\<rparr>"
  by (simp add: fire_def Box_def prop_of_def)

lemma displayed_scale_eq:
  "displayed_scale props s = Some (if active s then Num 1.5 else Num 1)"
  by (simp add: displayed_scale_def Box_def prop_of_def)

lemma displayed_color_eq:
  "displayed_color props s = Some (Str (if hovered s then ''hotpink'' else ''orange''))"
  by (simp add: displayed_color_def Box_def prop_of_def)

lemma active_step: "active (step props e s) = (if is_click e then \<not> active s else active s)"
  by (cases e) (simp_all add: fire_onClick fire_onPointerOver fire_onPointerOut
      useFrame_callback_def split: option.splits)

lemma hovered_step:
  "hovered (step props e s) = (if is_pointer e then e = PointerOver else hovered s)"
  by (cases e) (simp_all add: fire_onClick fire_onPointerOver fire_onPointerOut
      useFrame_callback_def split: option.splits)

text \<open>After a run, the active flag is the initial one inverted once per click, and the
  hover flag is decided by the last pointer event; no other event matters.\<close>

lemma active_run:
  "active (run props evs s) = fold (\<lambda>e a. \<not> a) (filter is_click evs) (active s)"
proof (induction evs arbitrary: s)
  case Nil
  show ?case by (simp add: run_def)
next
  case (Cons e evs)
  have "run props (e # evs) s = run props evs (step props e s)"
    by (simp add: run_def)
  with Cons.IH [of "step props e s"] show ?case
    by (simp add: active_step)
qed

lemma hovered_run:
  "hovered (run props evs s) =
     fold (\<lambda>e h. e = PointerOver) (filter is_pointer evs) (hovered s)"
proof (induction evs arbitrary: s)
  case Nil
  show ?case by (simp add: run_def)
next
  case (Cons e evs)
  have "run props (e # evs) s = run props evs (step props e s)"
    by (simp add: run_def)
  with Cons.IH [of "step props e s"] show ?case
    by (simp add: hovered_step)
qed

subsection \<open>Click and scale\<close>

text \<open>
  C1. For every Box and every click, the click handler flips the active flag, and the
  scale the mesh is rendered with is 1.5 when active is true and 1 when it is false; so a
  click moves the displayed scale from 1 to 1.5 or from 1.5 to 1. The two values differ.
\<close>

theorem click_toggles_scale:
  "active (step props Click s) = (\<not> active s)
   \<and> displayed_scale props s = Some (if active s then Num 1.5 else Num 1)
   \<and> displayed_scale props (step props Click s) = Some (if active s then Num 1 else Num 1.5)
   \<and> Num 1.5 \<noteq> Num 1"
  by (simp add: fire_onClick displayed_scale_eq)

text \<open>
  C7. The click toggle is an involution: two clicks in a row give back the state of the
  Box, so its active flag and its displayed scale are the original ones.
\<close>

theorem click_involution:
  "step props Click (step props Click s) = s
   \<and> run props [Click, Click] s = s
   \<and> active (run props [Click, Click] s) = active s
   \<and> displayed_scale props (run props [Click, Click] s) = displayed_scale props s"
  by (simp add: fire_onClick run_def)

subsection \<open>Hover and color\<close>

text \<open>
  C2. The displayed material color of a Box is a function of the hover flag: hotpink when
  hovered, orange when not. A pointer-enter event makes hovered true and a pointer-leave
  event makes it false, so entering shows hotpink and leaving shows orange again; a fresh
  Box is orange.
\<close>

theorem hover_color:
  "displayed_color props s = Some (Str (if hovered s then ''hotpink'' else ''orange''))
   \<and> hovered (step props PointerOver s) = True
   \<and> hovered (step props PointerOut s) = False
   \<and> displayed_color props (step props PointerOver s) = Some (Str ''hotpink'')
   \<and> displayed_color props (step props PointerOut s) = Some (Str ''orange'')
   \<and> displayed_color props (box_init :: 'n box_state) = Some (Str ''orange'')"
  by (simp add: fire_onPointerOver fire_onPointerOut displayed_color_eq box_init_def)

subsection \<open>UI events and the two flags\<close>




subsection \<open>The frame callback\<close>

text \<open>
  C3. On a frame, the callback adds the frame's delta to the x rotation of the mesh: if
  the mesh is attached and its rotation.x is r, then after the frame it is r + delta.
\<close>

theorem frame_increments_rotation_x:
  "meshRef s = Some m \<Longrightarrow>
     map_option (\<lambda>m'. rot_x (mesh_rotation m')) (meshRef (step props (Frame d) s))
       = Some (rot_x (mesh_rotation m) + d)"
  by (simp add: useFrame_callback_def)

theorem frame_increments_rotation_x_witness:
  "map_option (\<lambda>m'. rot_x (mesh_rotation m'))
     (meshRef (step [] (Frame (1 / 60))
        \<lparr>hovered = False, active = False,
         meshRef = Some \<lparr>mesh_rotation = \<lparr>rot_x = 2, rot_y = 0, rot_z = 0\<rparr>,
                         mesh_position = (0, 0, 0), mesh_scale = (1, 1, 1)\<rparr>\<rparr>))
     = Some (121 / 60 :: rat)"
  using frame_increments_rotation_x
    [of "\<lparr>hovered = False, active = False,
         meshRef = Some \<lparr>mesh_rotation = \<lparr>rot_x = 2, rot_y = 0, rot_z = 0\<rparr>,
                         mesh_position = (0, 0, 0), mesh_scale = (1, 1, 1)\<rparr>\<rparr>"
        "\<lparr>mesh_rotation = \<lparr>rot_x = 2 :: rat, rot_y = 0, rot_z = 0\<rparr>,
          mesh_position = (0, 0, 0), mesh_scale = (1, 1, 1)\<rparr>" "[]" "1 / 60"]
  by simp

text \<open>
  C8. The frame callback writes rotation.x only: the hover and active flags, hence the
  displayed scale and color, whether a mesh is attached, and the mesh's rotation.y,
  rotation.z, position and scale are what they were before the frame.
\<close>

theorem frame_changes_only_rotation_x:
  "hovered (step props (Frame d) s) = hovered s
   \<and> active (step props (Frame d) s) = active s
   \<and> displayed_scale props (step props (Frame d) s) = displayed_scale props s
   \<and> displayed_color props (step props (Frame d) s) = displayed_color props s
   \<and> (meshRef (step props (Frame d) s) = None) = (meshRef s = None)
   \<and> map_option (\<lambda>m. rot_y (mesh_rotation m)) (meshRef (step props (Frame d) s))
       = map_option (\<lambda>m. rot_y (mesh_rotation m)) (meshRef s)
   \<and> map_option (\<lambda>m. rot_z (mesh_rotation m)) (meshRef (step props (Frame d) s))
       = map_option (\<lambda>m. rot_z (mesh_rotation m)) (meshRef s)
   \<and> map_option mesh_position (meshRef (step props (Frame d) s))
       = map_option mesh_position (meshRef s)
   \<and> map_option mesh_scale (meshRef (step props (Frame d) s))
       = map_option mesh_scale (meshRef s)"
  by (cases "meshRef s")
    (simp_all add: useFrame_callback_def displayed_scale_eq displayed_color_eq)

subsection \<open>Independence of hover and click\<close>

text \<open>
  C10. Pointer-enter and pointer-leave events never change the active flag and a click
  never changes the hover flag. Two runs of a Box whose click events agree, from states
  with the same active flag, display the same scale; two runs whose pointer events agree,
  from states with the same hover flag, display the same color.
\<close>

theorem hover_click_independent:
  "active (step props PointerOver s) = active s
   \<and> active (step props PointerOut s) = active s
   \<and> hovered (step props Click s) = hovered s
   \<and> (filter is_click evs1 = filter is_click evs2 \<and> active s1 = active s2 \<longrightarrow>
        displayed_scale props (run props evs1 s1) = displayed_scale props (run props evs2 s2))
   \<and> (filter is_pointer evs1 = filter is_pointer evs2 \<and> hovered s1 = hovered s2 \<longrightarrow>
        displayed_color props (run props evs1 s1) = displayed_color props (run props evs2 s2))"
  by (simp add: fire_onClick fire_onPointerOver fire_onPointerOut
      displayed_scale_eq displayed_color_eq active_run hovered_run)

theorem hover_click_independent_witness:
  "filter is_click [Click, PointerOver, Frame (1::rat), Click, Click]
     = filter is_click [PointerOut, Click, Click, Frame (2::rat), Click]
   \<and> displayed_scale []
        (run [] [Click, PointerOver, Frame (1::rat), Click, Click] box_init)
     = displayed_scale []
        (run [] [PointerOut, Click, Click, Frame (2::rat), Click] box_init)
   \<and> filter is_pointer [Click, PointerOver, Frame (1::rat), Click, Click]
     = filter is_pointer [PointerOver, Frame (3::rat)]
   \<and> displayed_color []
        (run [] [Click, PointerOver, Frame (1::rat), Click, Click] box_init)
     = displayed_color [] (run [] [PointerOver, Frame (3::rat)] box_init)"
  using hover_click_independent [where props = "[]" and s = "box_init :: rat box_state"
      and ?evs1.0 = "[Click, PointerOver, Frame (1::rat), Click, Click]"
      and ?evs2.0 = "[PointerOut, Click, Click, Frame (2::rat), Click]"
      and ?s1.0 = box_init and ?s2.0 = box_init]
    hover_click_independent [where props = "[]" and s = "box_init :: rat box_state"
      and ?evs1.0 = "[Click, PointerOver, Frame (1::rat), Click, Click]"
      and ?evs2.0 = "[PointerOver, Frame (3::rat)]"
      and ?s1.0 = box_init and ?s2.0 = box_init]
  by simp

section \<open>Properties of ClientOnly\<close>

lemma ClientOnly_if:
  "ClientOnly children fallback hasMounted =
     (if hasMounted then Fragment [children]
      else (case fallback of None \<Rightarrow> NullNode | Some f \<Rightarrow> f))"
  by (simp add: ClientOnly_def)


lemma client_step_keeps: "client_step e True = True"
  by (cases e) simp_all

lemma client_run_True: "client_run evs True = True"
  by (induction evs) (simp_all add: client_run_def client_step_keeps)

lemma client_run_append: "client_run (evs1 @ evs2) h = client_run evs2 (client_run evs1 h)"
  by (simp add: client_run_def)

text \<open>
  C9. The mounted flag of a ClientOnly is monotone: no step of its life takes hasMounted
  from true to false, so once a run has reached hasMounted = true, every continuation
  of the run still has it true and renders the wrapped children, never the fallback.
\<close>

theorem hasMounted_monotone:
  "(hasMounted \<longrightarrow> client_step e hasMounted)
   \<and> (client_run evs1 hasMounted \<longrightarrow>
        client_run (evs1 @ evs2) hasMounted
        \<and> ClientOnly children fallback (client_run (evs1 @ evs2) hasMounted)
            = Fragment [children])"
  by (auto simp add: client_step_keeps client_run_append client_run_True ClientOnly_if)

theorem hasMounted_monotone_witness:
  "client_run [Render, MountEffect] hasMounted_init
   \<and> client_step Render True
   \<and> client_run ([Render, MountEffect] @ [Render, MountEffect, Render]) hasMounted_init
   \<and> ClientOnly AdvancedScene (Some loading)
        (client_run ([Render, MountEffect] @ [Render, MountEffect, Render]) hasMounted_init)
       = Fragment [AdvancedScene]
   \<and> ClientOnly AdvancedScene (Some loading) (client_run [Render] hasMounted_init) = loading"
  using hasMounted_monotone [where hasMounted = hasMounted_init and e = Render
      and ?evs1.0 = "[Render, MountEffect]" and ?evs2.0 = "[Render, MountEffect, Render]"
      and children = AdvancedScene and fallback = "Some loading"]
  by (simp add: client_run_def hasMounted_init_def ClientOnly_if)

section \<open>Properties of the page and its scenes\<close>

lemma prop_of_single: "prop_of k [(k', v)] = (if k' = k then Some v else None)"
  by (simp add: prop_of_def)

lemma elements_Box:
  "elements ''mesh'' (Box props s) = [Box props s]"
  "elements ''Canvas'' (Box props s) = []"
  "elements ''div'' (Box props s) = []"
  "elements ''h2'' (Box props s) = []"
  "length (elements ''boxGeometry'' (Box props s)) = 1"
  by (simp_all add: Box_def)

lemma Box_position:
  "prop_of ''position'' (el_props (Box [(''position'', p)] s)) = Some p"
  by (simp add: Box_def prop_of_def)

lemma meshes_Scene:
  "elements ''mesh'' (Scene b1 b2) =
     [Box [(''position'', Arr [Neg (Num 1.2), Num 0, Num 0])] b1,
      Box [(''position'', Arr [Num 1.2, Num 0, Num 0])] b2]"
  by (simp add: Scene_def elements_Box)

lemma canvases_Scene: "length (elements ''Canvas'' (Scene b1 b2)) = 1"
  by (simp add: Scene_def elements_Box)

lemma divs_Scene: "elements ''div'' (Scene b1 b2) = [Scene b1 b2]"
  by (simp add: Scene_def elements_Box)

lemma h2_Scene: "elements ''h2'' (Scene b1 b2) = []"
  by (simp add: Scene_def elements_Box)

lemma elements_AdvancedScene:
  "elements ''mesh'' AdvancedScene = [Sphere, Ground]"
  "elements ''div'' AdvancedScene = [AdvancedScene]"
  "elements ''h2'' AdvancedScene = []"
  "length (elements ''Canvas'' AdvancedScene) = 1"
  "map (prop_of ''shadows'' \<circ> el_props) (elements ''Canvas'' AdvancedScene) = [Some (Flag True)]"
  "elements ''Environment'' AdvancedScene =
     [Element ''Environment'' [(''preset'', Str ''sunset'')] []]"
  "length (elements ''ContactShadows'' AdvancedScene) = 1"
  "length (elements ''OrbitControls'' AdvancedScene) = 1"
  by (simp_all add: AdvancedScene_def Sphere_def Ground_def prop_of_def)

lemma geometry_Sphere: "length (elements ''sphereGeometry'' Sphere) = 1"
  by (simp add: Sphere_def)

lemma elements_loading:
  "elements ''div'' loading = [loading]"
  "elements ''h2'' loading = []"
  "elements ''Canvas'' loading = []"
  by (simp_all add: loading_def)

lemma elements_ClientOnly:
  "elements t (ClientOnly c (Some f) m) = (if m then elements t c else elements t f)"
  by (simp add: ClientOnly_if)

lemma className_cases:
  "prop_of ''className'' (el_props loading) = Some (Str ''flex items-center justify-center h-full'')"
  "prop_of ''className'' (el_props (Scene b1 b2)) = Some (Str ''w-full h-screen'')"
  "prop_of ''className'' (el_props AdvancedScene) = Some (Str ''w-full h-screen'')"
  by (simp_all add: loading_def Scene_def AdvancedScene_def prop_of_def)

lemmas page_simps =
  panels_def ThreeDPage_def elements_ClientOnly elements_loading divs_Scene h2_Scene
  elements_AdvancedScene(2,3) className_cases prop_of_single

lemma panels_page: "length (panels (ThreeDPage st)) = 2"
  by (simp add: page_simps)

lemma panel_titles:
  "map (concat \<circ> map el_children \<circ> elements ''h2'') (panels (ThreeDPage st)) =
     [[Text ''Basic Scene''], [Text ''Advanced Scene'']]"
  by (simp add: page_simps)

lemma panel_canvases:
  "map (elements ''Canvas'') (panels (ThreeDPage st)) =
     [if scene_mounted st then elements ''Canvas'' (Scene (box_left st) (box_right st)) else [],
      if advanced_mounted st then elements ''Canvas'' AdvancedScene else []]"
  by (simp add: page_simps)






lemma routes_eq: "routes = [''/3d'', ''/'']"
  by (simp add: routes_def page_modules_def)

lemma no_links:
  "elements ''a'' (Scene b1 b2) = []"
  "elements ''a'' AdvancedScene = []"
  "elements ''a'' loading = []"
  by (simp_all add: Scene_def Box_def AdvancedScene_def Sphere_def Ground_def loading_def)

lemma internal_links_page: "internal_links (ThreeDPage st) = [''/'']"
  by (simp add: internal_links_def hrefs_def ThreeDPage_def elements_ClientOnly no_links
      prop_of_def)

lemma nothing_in_loading:
  "elements ''Canvas'' loading = []"
  "elements ''mesh'' loading = []"
  by (simp_all add: loading_def)

lemma page_canvases:
  "elements ''Canvas'' (ThreeDPage st) =
     (if scene_mounted st then elements ''Canvas'' (Scene (box_left st) (box_right st)) else [])
     @ (if advanced_mounted st then elements ''Canvas'' AdvancedScene else [])"
  by (simp add: ThreeDPage_def elements_ClientOnly nothing_in_loading)

lemma page_meshes:
  "elements ''mesh'' (ThreeDPage st) =
     (if scene_mounted st then elements ''mesh'' (Scene (box_left st) (box_right st)) else [])
     @ (if advanced_mounted st then elements ''mesh'' AdvancedScene else [])"
  by (simp add: ThreeDPage_def elements_ClientOnly nothing_in_loading)

lemma page_canvases_in_panels:
  "elements ''Canvas'' (ThreeDPage st) =
     concat (map (elements ''Canvas'') (panels (ThreeDPage st)))"
  by (simp only: panel_canvases page_canvases) simp

lemma page_canvases_mounted:
  "length (elements ''Canvas''
     (ThreeDPage (st\<lparr>scene_mounted := True, advanced_mounted := True\<rparr>))) = 2"
  by (simp add: page_canvases canvases_Scene elements_AdvancedScene)

text \<open>
  C6, as stated: the externally visible surface is a single page route. It is not: the
  app has two page modules, served at /3d and at /, and the 3D page itself links back
  to the homepage at /.
\<close>

theorem surface_is_not_a_single_route:
  "length routes \<noteq> 1
   \<and> routes = [''/3d'', ''/'']
   \<and> internal_links
        (ThreeDPage (\<lparr>scene_mounted = True, advanced_mounted = True,
                      box_left = box_init, box_right = box_init\<rparr> :: rat page_state))
       = [''/'']"
  by (simp add: routes_eq internal_links_page)

text \<open>
  C6, amended. The page route /3d renders exactly two scene panels, titled Basic Scene
  and Advanced Scene: every canvas of the page lies in one of them, each panel shows
  the one canvas of its scene once mounted, so the mounted page has exactly two
  canvases, and the meshes of the page are those of the two scenes. The basic scene
  has exactly two Box meshes, placed at [-1.2, 0, 0] and [1.2, 0, 0], each a box
  geometry whose x rotation every frame advances by the frame's delta. The advanced
  scene has one canvas, with shadows on, holding a sunset environment, the sphere mesh
  (and the ground), contact shadows and orbit controls.
\<close>

theorem page_renders_two_scene_panels:
  "''/3d'' \<in> set routes
   \<and> length (panels (ThreeDPage st)) = 2
   \<and> map (concat \<circ> map el_children \<circ> elements ''h2'') (panels (ThreeDPage st)) =
       [[Text ''Basic Scene''], [Text ''Advanced Scene'']]
   \<and> map (elements ''Canvas'') (panels (ThreeDPage st)) =
       [if scene_mounted st then elements ''Canvas'' (Scene (box_left st) (box_right st)) else [],
        if advanced_mounted st then elements ''Canvas'' AdvancedScene else []]
   \<and> elements ''Canvas'' (ThreeDPage st) =
       concat (map (elements ''Canvas'') (panels (ThreeDPage st)))
   \<and> length (elements ''Canvas''
        (ThreeDPage (st\<lparr>scene_mounted := True, advanced_mounted := True\<rparr>))) = 2
   \<and> elements ''mesh'' (ThreeDPage st) =
       (if scene_mounted st then elements ''mesh'' (Scene (box_left st) (box_right st)) else [])
       @ (if advanced_mounted st then elements ''mesh'' AdvancedScene else [])
   \<and> length (elements ''Canvas'' (Scene b1 b2)) = 1
   \<and> elements ''mesh'' (Scene b1 b2) =
       [Box [(''position'', Arr [Neg (Num 1.2), Num 0, Num 0])] b1,
        Box [(''position'', Arr [Num 1.2, Num 0, Num 0])] b2]
   \<and> map (prop_of ''position'' \<circ> el_props) (elements ''mesh'' (Scene b1 b2)) =
       [Some (Arr [Neg (Num 1.2), Num 0, Num 0]), Some (Arr [Num 1.2, Num 0, Num 0])]
   \<and> map (length \<circ> elements ''boxGeometry'') (elements ''mesh'' (Scene b1 b2)) = [1, 1]
   \<and> map_option (\<lambda>m. rot_x (mesh_rotation m)) (meshRef (step props (Frame d) s)) =
       map_option (\<lambda>m. rot_x (mesh_rotation m) + d) (meshRef s)
   \<and> length (elements ''Canvas'' AdvancedScene) = 1
   \<and> map (prop_of ''shadows'' \<circ> el_props) (elements ''Canvas'' AdvancedScene) = [Some (Flag True)]
   \<and> elements ''Environment'' AdvancedScene =
       [Element ''Environment'' [(''preset'', Str ''sunset'')] []]
   \<and> elements ''mesh'' AdvancedScene = [Sphere, Ground]
   \<and> length (elements ''sphereGeometry'' Sphere) = 1
   \<and> length (elements ''ContactShadows'' AdvancedScene) = 1
   \<and> length (elements ''OrbitControls'' AdvancedScene) = 1"
proof -
  have route: "''/3d'' \<in> set routes"
    by (simp add: routes_eq)
  have spin: "map_option (\<lambda>m. rot_x (mesh_rotation m)) (meshRef (step props (Frame d) s)) =
       map_option (\<lambda>m. rot_x (mesh_rotation m) + d) (meshRef s)"
    by (cases "meshRef s") (simp_all add: useFrame_callback_def)
  have pos: "map (prop_of ''position'' \<circ> el_props) (elements ''mesh'' (Scene b1 b2)) =
       [Some (Arr [Neg (Num 1.2), Num 0, Num 0]), Some (Arr [Num 1.2, Num 0, Num 0])]"
    by (simp add: meshes_Scene Box_position)
  have geo: "map (length \<circ> elements ''boxGeometry'') (elements ''mesh'' (Scene b1 b2)) = [1, 1]"
    by (simp add: meshes_Scene elements_Box)
  show ?thesis
    by (intro conjI)
      (rule route panels_page panel_titles panel_canvases page_canvases_in_panels
        page_canvases_mounted page_meshes canvases_Scene meshes_Scene pos geo spin
        elements_AdvancedScene geometry_Sphere)+
qed

end
